theory Spec2Isabelle
  imports Main
begin

section \<open>JavaScript values, objects and the store\<close>

text \<open>
  The values that the modelled functions handle: the primitives, a reference to a DOM
  element and a reference to an object in the store. An object is a finite map from
  property names to values (its own properties); the store is the list of the objects
  allocated so far, and a reference is an index into it.
\<close>

datatype jsval =
    Undefined
  | Null
  | Bool bool
  | Num int
  | Str string
  | Element nat
  | Ref nat

type_synonym jsobj = "string \<rightharpoonup> jsval"

type_synonym ref = nat

text \<open>\<^verbatim>\<open>obj.k\<close>: reading a property that the object does not have gives \<^verbatim>\<open>undefined\<close>.\<close>

definition get_prop :: "jsobj \<Rightarrow> string \<Rightarrow> jsval" where
  "get_prop obj k = (case obj k of None \<Rightarrow> Undefined | Some v \<Rightarrow> v)"

text \<open>
  Modelled from the spec: \<^verbatim>\<open>utils/hasOwnProperty\<close> is imported by initCSF and is not among
  the sources. The spec reads the check as "setupConfig must name a root container": the
  object has a property of that name.
\<close>

definition hasOwnProperty :: "jsobj \<Rightarrow> string \<Rightarrow> bool" where
  "hasOwnProperty obj k = (obj k \<noteq> None)"

section \<open>initCSF\<close>

text \<open>What initCSF does besides returning: the log lines and the construction of a CSF.\<close>

datatype event =
    LoggerError string
  | LoggerWarn string
  | ConsoleError string jsval
  | NewCSF ref

record store =
  heap :: "jsobj list"
  trace :: "event list"

datatype error = Error string

text \<open>
  The imports of initCSF that are not among the sources are parameters:
  \<^verbatim>\<open>cardType.isGenericCardType\<close>, \<^verbatim>\<open>falsy\<close> of commonUtils, \<^verbatim>\<open>findRootNode\<close> of domUtils
  (the element found, or none), whether \<^verbatim>\<open>window.console.error\<close> exists, the constructor
  of the class CSF (it is handed the store and the reference of its setup object) and
  the method \<^verbatim>\<open>createReturnObject\<close> of the instance.
\<close>

record ('c, 'h) env =
  isGenericCardType :: "jsval \<Rightarrow> bool"
  falsy :: "jsval \<Rightarrow> bool"
  findRootNode :: "jsval \<Rightarrow> nat option"
  console_error_available :: bool
  CSF_constructor :: "jsobj list \<Rightarrow> ref \<Rightarrow> 'c"
  createReturnObject :: "'c \<Rightarrow> 'h"

definition MSG_NO_CONFIG :: string where
  \<open>MSG_NO_CONFIG = ''No securedFields configuration object defined''\<close>

definition MSG_NO_ROOTNODE_PROP :: string where
  \<open>MSG_NO_ROOTNODE_PROP = ''ERROR: SecuredFields configuration object is missing a "rootNode" property''\<close>

definition MSG_NO_CLIENTKEY :: string where
  \<open>MSG_NO_CLIENTKEY = ''WARNING: AdyenCheckout configuration object is missing a "clientKey" property.''\<close>

definition MSG_ROOTNODE_NOT_FOUND :: string where
  \<open>MSG_ROOTNODE_NOT_FOUND = ''ERROR: SecuredFields cannot find a valid rootNode element for''\<close>

text \<open>\<^verbatim>\<open>{ ...obj }\<close>: a new object with the properties of the old one.\<close>

definition spread :: "ref \<Rightarrow> store \<Rightarrow> ref \<times> store" where
  "spread p st = (length (heap st), st\<lparr>heap := heap st @ [heap st ! p]\<rparr>)"

definition read :: "store \<Rightarrow> ref \<Rightarrow> string \<Rightarrow> jsval" where
  "read st a k = get_prop (heap st ! a) k"

text \<open>\<^verbatim>\<open>obj.k = v\<close>\<close>

definition assign :: "ref \<Rightarrow> string \<Rightarrow> jsval \<Rightarrow> store \<Rightarrow> store" where
  "assign a k v st = st\<lparr>heap := (heap st)[a := (heap st ! a)(k \<mapsto> v)]\<rparr>"

definition emit :: "event \<Rightarrow> store \<Rightarrow> store" where
  "emit e st = st\<lparr>trace := trace st @ [e]\<rparr>"

definition initCSF ::
  "('c, 'h) env \<Rightarrow> ref option \<Rightarrow> store \<Rightarrow> (error + 'h option) \<times> store" where
  "initCSF env pSetupObj st0 =
     (case pSetupObj of
        None \<Rightarrow> (Inl (Error MSG_NO_CONFIG), st0)
      | Some p \<Rightarrow>
          (let (setupObj, st1) = spread p st0;
               isGeneric = isGenericCardType env (read st1 setupObj ''type'');
               st2 = assign setupObj ''type''
                       (if isGeneric then Str ''card'' else read st1 setupObj ''type'') st1
           in if \<not> hasOwnProperty (heap st2 ! setupObj) ''rootNode'' then
                (Inr None, emit (LoggerError MSG_NO_ROOTNODE_PROP) st2)
              else if falsy env (read st2 setupObj ''clientKey'') then
                (Inr None, emit (LoggerWarn MSG_NO_CLIENTKEY) st2)
              else
                (case findRootNode env (read st2 setupObj ''rootNode'') of
                   None \<Rightarrow>
                     (Inr None,
                      if console_error_available env
                      then emit (ConsoleError MSG_ROOTNODE_NOT_FOUND (read st2 setupObj ''type'')) st2
                      else st2)
                 | Some rootNode \<Rightarrow>
                     (let st3 = assign setupObj ''rootNode'' (Element rootNode) st2;
                          myCSF = CSF_constructor env (heap st3) setupObj;
                          st4 = emit (NewCSF setupObj) st3
                      in (Inr (Some (createReturnObject env myCSF)), st4)))))"

text \<open>The log lines that report a root node that is missing or cannot be found.\<close>

fun is_rootnode_error :: "event \<Rightarrow> bool" where
  "is_rootnode_error (LoggerError m) = (m = MSG_NO_ROOTNODE_PROP)"
| "is_rootnode_error (ConsoleError m t) = (m = MSG_ROOTNODE_NOT_FOUND)"
| "is_rootnode_error (LoggerWarn m) = False"
| "is_rootnode_error (NewCSF a) = False"

fun is_NewCSF :: "event \<Rightarrow> bool" where
  "is_NewCSF (NewCSF a) = True"
| "is_NewCSF (LoggerError m) = False"
| "is_NewCSF (LoggerWarn m) = False"
| "is_NewCSF (ConsoleError m t) = False"

text \<open>The type that initCSF stores on its copy of the setup object (lines 17 and 18).\<close>

definition normalized_type :: "('c, 'h) env \<Rightarrow> jsobj \<Rightarrow> jsval" where
  "normalized_type env obj =
     (if isGenericCardType env (get_prop obj ''type'') then Str ''card''
      else get_prop obj ''type'')"

text \<open>
  A document and a store to run initCSF on: the card types \<^verbatim>\<open>card\<close> and \<^verbatim>\<open>scheme\<close> are
  generic, \<^verbatim>\<open>undefined\<close>, \<^verbatim>\<open>null\<close> and \<^verbatim>\<open>false\<close> are falsy, the selector \<^verbatim>\<open>#card\<close> finds
  element 7 and no other selector finds anything, a CSF instance is identified by the
  reference of its setup object and its return object by the instance.
\<close>

definition sample_env :: "(ref, ref) env" where
  "sample_env =
     \<lparr>isGenericCardType = (\<lambda>v. v = Str ''card'' \<or> v = Str ''scheme''),
      falsy = (\<lambda>v. v = Undefined \<or> v = Null \<or> v = Bool False),
      findRootNode = (\<lambda>v. if v = Str ''#card'' then Some 7 else None),
      console_error_available = True,
      CSF_constructor = (\<lambda>h a. a),
      createReturnObject = (\<lambda>c. c)\<rparr>"

definition sample_store :: "jsobj list \<Rightarrow> store" where
  "sample_store objs = \<lparr>heap = objs, trace = []\<rparr>"

section \<open>Session (CheckoutSession.ts)\<close>

record CheckoutSession =
  id' :: string
  data :: "string option"

record 'a Session =
  session :: "'a CheckoutSession_scheme"
  clientKey :: jsval
  loadingContext :: jsval

record PaymentResponse =
  sessionData :: "string option"

text \<open>A promise that has settled.\<close>

datatype 'r settled = Resolved 'r | Rejected string

text \<open>
  The imports of the class that are not among the sources are parameters: the two
  services, each giving the settled promise of its call, and \<^verbatim>\<open>storeSession\<close> of the
  storage module, which writes the session to a storage of type \<open>'st\<close>.
\<close>

record ('a, 'r, 'st) services =
  makePayment_service :: "jsval \<Rightarrow> 'a Session \<Rightarrow> 'r PaymentResponse_scheme settled"
  submitDetails_service :: "jsval \<Rightarrow> 'a Session \<Rightarrow> 'r PaymentResponse_scheme settled"
  storeSession_storage :: "'a CheckoutSession_scheme \<Rightarrow> 'st \<Rightarrow> 'st"

definition Session_id :: "'a Session \<Rightarrow> string" where
  "Session_id this = id' (session this)"

definition Session_data :: "'a Session \<Rightarrow> string option" where
  "Session_data this = data (session this)"

definition storeSession ::
  "('a, 'r, 'st) services \<Rightarrow> 'a Session \<times> 'st \<Rightarrow> 'a Session \<times> 'st" where
  "storeSession sv w =
     (case w of (this, storage) \<Rightarrow> (this, storeSession_storage sv (session this) storage))"

definition updateSessionData ::
  "('a, 'r, 'st) services \<Rightarrow> string \<Rightarrow> 'a Session \<times> 'st \<Rightarrow> 'a Session \<times> 'st" where
  "updateSessionData sv latestData w =
     (case w of (this, storage) \<Rightarrow>
        storeSession sv (this\<lparr>session := (session this)\<lparr>data := Some latestData\<rparr>\<rparr>, storage))"

text \<open>The callback of \<^verbatim>\<open>then\<close> in makePayment and submitDetails.\<close>

definition on_response ::
  "('a, 'r, 'st) services \<Rightarrow> 'r PaymentResponse_scheme \<Rightarrow> 'a Session \<times> 'st \<Rightarrow> 'a Session \<times> 'st" where
  "on_response sv response w =
     (case sessionData response of
        None \<Rightarrow> w
      | Some sd \<Rightarrow> if sd = [] then w else updateSessionData sv sd w)"

definition makePayment ::
  "('a, 'r, 'st) services \<Rightarrow> jsval \<Rightarrow> 'a Session \<times> 'st
     \<Rightarrow> 'r PaymentResponse_scheme settled \<times> 'a Session \<times> 'st" where
  "makePayment sv d w =
     (case makePayment_service sv d (fst w) of
        Rejected e \<Rightarrow> (Rejected e, w)
      | Resolved response \<Rightarrow> (Resolved response, on_response sv response w))"

definition submitDetails ::
  "('a, 'r, 'st) services \<Rightarrow> jsval \<Rightarrow> 'a Session \<times> 'st
     \<Rightarrow> 'r PaymentResponse_scheme settled \<times> 'a Session \<times> 'st" where
  "submitDetails sv d w =
     (case submitDetails_service sv d (fst w) of
        Rejected e \<Rightarrow> (Rejected e, w)
      | Resolved response \<Rightarrow> (Resolved response, on_response sv response w))"

section \<open>Core.remove\<close>

text \<open>
  A component is known to \<^verbatim>\<open>remove\<close> by its \<^verbatim>\<open>_id\<close>. The state is the Core instance and
  the calls of \<^verbatim>\<open>unmount\<close> made so far, each with the component it was called on.
\<close>

record component =
  x_id :: jsval

record 'a Core =
  components :: "'a component_scheme list"

definition remove ::
  "'a component_scheme \<Rightarrow> 'a Core \<times> 'a component_scheme list
     \<Rightarrow> 'a Core \<times> 'a component_scheme list" where
  "remove c w =
     (case w of (this, unmounted) \<Rightarrow>
        (this\<lparr>components := filter (\<lambda>x. x_id x \<noteq> x_id c) (components this)\<rparr>,
         unmounted @ [c]))"

section \<open>The Aggregator\<close>

text \<open>
  Modelled from the spec: the Aggregator and the data it works on (FieldState,
  CompositeState) belong to the class CSF, which is not among the sources. The
  definitions follow sections 3 and 4.5 of the spec. A set of FieldStates is a list of
  the logical field names with the state of each. The validation policy, which says
  the fields that are optional for a brand, is a parameter. The spec names a fourth
  attribute of the CompositeState, lastErrorField, and says nothing of how it is
  derived: it is left out.
\<close>

record FieldState =
  isValid :: bool
  isEmpty :: bool
  hasFocus :: bool
  errorCode :: "string option"
  brandHint :: "string option"

type_synonym fieldStates = "(string \<times> FieldState) list"

record CompositeState =
  allValid :: bool
  detectedBrand :: "string option"
  numberOfValidFields :: nat

text \<open>
  Modelled from the spec: "a brand hint from the PAN field wins; if no PAN field exists
  brand is always null".
\<close>

definition detectBrand :: "fieldStates \<Rightarrow> string option" where
  "detectBrand fs =
     (case map_of fs ''encryptedCardNumber'' of None \<Rightarrow> None | Some s \<Rightarrow> brandHint s)"

text \<open>
  Modelled from the spec: "fields that are optional (e.g., CVC omitted for some brands)
  are excluded from the computation once the brand is known".
\<close>

definition required :: "(string \<Rightarrow> string \<Rightarrow> bool) \<Rightarrow> string option \<Rightarrow> string \<Rightarrow> bool" where
  "required optional brand n = (case brand of None \<Rightarrow> True | Some b \<Rightarrow> \<not> optional b n)"

text \<open>
  Modelled from the spec: the CompositeState is a pure function of the current set of
  FieldStates; allValid is true iff every required field's isValid is true.
\<close>

definition recompute :: "(string \<Rightarrow> string \<Rightarrow> bool) \<Rightarrow> fieldStates \<Rightarrow> CompositeState" where
  "recompute optional fs =
     \<lparr>allValid = list_all (\<lambda>(n, s). required optional (detectBrand fs) n \<longrightarrow> isValid s) fs,
      detectedBrand = detectBrand fs,
      numberOfValidFields = length (filter (\<lambda>(n, s). isValid s) fs)\<rparr>"

text \<open>
  Modelled from the spec: the state of the Aggregator, which is not among the sources:
  the FieldStates and the CompositeState last derived from them.
\<close>

record aggregator =
  fieldStates :: fieldStates
  composite :: CompositeState

text \<open>
  Modelled from the spec: a FieldState is "mutated only in response to authenticated
  messages from its FrameSession"; the new state of the field \<open>n\<close> replaces the old one,
  and a name that is no field of the setup changes nothing.
\<close>

definition setFieldState :: "string \<Rightarrow> FieldState \<Rightarrow> fieldStates \<Rightarrow> fieldStates" where
  "setFieldState n s fs = map (\<lambda>(m, t). if m = n then (m, s) else (m, t)) fs"

text \<open>
  Modelled from the spec: "recomputation is triggered by any FieldState change
  notification"; the CompositeState is "recomputed, never stored as
  independently-mutated state".
\<close>

definition fieldStateChanged ::
  "(string \<Rightarrow> string \<Rightarrow> bool) \<Rightarrow> string \<Rightarrow> FieldState \<Rightarrow> aggregator \<Rightarrow> aggregator" where
  "fieldStateChanged optional n s agg =
     (let fs = setFieldState n s (fieldStates agg)
      in \<lparr>fieldStates = fs, composite = recompute optional fs\<rparr>)"

text \<open>
  A card setup to run the Aggregator on: the three fields, and a policy under which
  the security code is optional for the brand \<^verbatim>\<open>maestro\<close>.
\<close>

definition sample_field :: "bool \<Rightarrow> string option \<Rightarrow> FieldState" where
  "sample_field v b =
     \<lparr>isValid = v, isEmpty = False, hasFocus = False, errorCode = None, brandHint = b\<rparr>"

definition sample_optional :: "string \<Rightarrow> string \<Rightarrow> bool" where
  "sample_optional b n = (b = ''maestro'' \<and> n = ''encryptedSecurityCode'')"

definition sample_fields :: fieldStates where
  "sample_fields =
     [(''encryptedCardNumber'', sample_field True (Some ''visa'')),
      (''encryptedExpiryDate'', sample_field True None),
      (''encryptedSecurityCode'', sample_field True None)]"

text \<open>An Aggregator over the card setup whose stored CompositeState is out of date.\<close>

definition sample_aggregator :: aggregator where
  "sample_aggregator =
     \<lparr>fieldStates = sample_fields,
      composite = \<lparr>allValid = False, detectedBrand = None, numberOfValidFields = 0\<rparr>\<rparr>"

section \<open>Setup objects and components to run the functions on\<close>

definition setup_complete :: jsobj where
  "setup_complete =
     [''type'' \<mapsto> Str ''scheme'', ''rootNode'' \<mapsto> Str ''#card'', ''clientKey'' \<mapsto> Str ''test_KEY'']"

definition setup_no_rootNode :: jsobj where
  "setup_no_rootNode = [''type'' \<mapsto> Str ''scheme'', ''clientKey'' \<mapsto> Str ''test_KEY'']"

definition setup_no_clientKey :: jsobj where
  "setup_no_clientKey = [''type'' \<mapsto> Str ''card'', ''rootNode'' \<mapsto> Str ''#card'']"

definition setup_unresolved_no_clientKey :: jsobj where
  "setup_unresolved_no_clientKey = [''type'' \<mapsto> Str ''scheme'', ''rootNode'' \<mapsto> Str ''#missing'']"

definition setup_nowhere :: jsobj where
  "setup_nowhere = [''type'' \<mapsto> Str ''card'', ''rootNode'' \<mapsto> Str ''#nowhere'']"

definition setup_type_only :: jsobj where
  "setup_type_only = [''type'' \<mapsto> Str ''card'']"

definition setup_ach :: jsobj where
  "setup_ach = [''type'' \<mapsto> Str ''ach'']"

definition setup_empty :: jsobj where
  "setup_empty = Map.empty"

definition sample_components :: "component list" where
  "sample_components =
     [\<lparr>x_id = Str ''card-1''\<rparr>, \<lparr>x_id = Str ''card-2''\<rparr>, \<lparr>x_id = Str ''ideal-3''\<rparr>,
      \<lparr>x_id = Str ''card-2''\<rparr>]"

definition setup_unresolved :: jsobj where
  "setup_unresolved =
     [''type'' \<mapsto> Str ''scheme'', ''rootNode'' \<mapsto> Str ''#missing'', ''clientKey'' \<mapsto> Str ''test_KEY'']"

text \<open>
  The document of \<open>sample_env\<close> with a CSF that is identified by the type of the setup
  object it is constructed on, read from the store that the constructor is handed: what
  initCSF returns under it is the type that the constructor saw.
\<close>

definition probe_env :: "(jsval, jsval) env" where
  "probe_env =
     \<lparr>isGenericCardType = (\<lambda>v. v = Str ''card'' \<or> v = Str ''scheme''),
      falsy = (\<lambda>v. v = Undefined \<or> v = Null \<or> v = Bool False),
      findRootNode = (\<lambda>v. if v = Str ''#card'' then Some 7 else None),
      console_error_available = True,
      CSF_constructor = (\<lambda>h a. get_prop (h ! a) ''type''),
      createReturnObject = (\<lambda>c. c)\<rparr>"

section \<open>The class CSF and its return object\<close>

text \<open>
  Modelled from the spec: the class CSF, with its constructor and its method
  createReturnObject, is not among the sources. The definitions follow sections 3 and
  4.2 of the spec. A FrameSession has an origin, a load state, a session token and the
  last-known metadata of the field value (length and masked preview).
\<close>

datatype load_state = Pending | Loaded | Failed











section \<open>Properties of initCSF\<close>

lemmas sample_defs = sample_env_def sample_store_def setup_complete_def setup_no_rootNode_def
  setup_no_clientKey_def setup_unresolved_no_clientKey_def setup_nowhere_def
  setup_type_only_def setup_empty_def normalized_type_def get_prop_def
  hasOwnProperty_def read_def

lemma initCSF_None: "initCSF env None st = (Inl (Error MSG_NO_CONFIG), st)"
  by (simp add: initCSF_def)

text \<open>
  The run of initCSF on a setup object that is present, with the store operations
  carried out: \<open>obj\<close> is the copy after line 18 and \<open>a\<close> is its reference.
\<close>

lemma initCSF_Some:
  "initCSF env (Some p) st =
     (let obj = (heap st ! p)(''type'' \<mapsto> normalized_type env (heap st ! p));
          a = length (heap st);
          st2 = st\<lparr>heap := heap st @ [obj]\<rparr>
      in if \<not> hasOwnProperty (heap st ! p) ''rootNode'' then
           (Inr None, st2\<lparr>trace := trace st @ [LoggerError MSG_NO_ROOTNODE_PROP]\<rparr>)
         else if falsy env (get_prop (heap st ! p) ''clientKey'') then
           (Inr None, st2\<lparr>trace := trace st @ [LoggerWarn MSG_NO_CLIENTKEY]\<rparr>)
         else
           (case findRootNode env (get_prop (heap st ! p) ''rootNode'') of
              None \<Rightarrow>
                (Inr None,
                 if console_error_available env
                 then st2\<lparr>trace := trace st @
                        [ConsoleError MSG_ROOTNODE_NOT_FOUND (normalized_type env (heap st ! p))]\<rparr>
                 else st2)
            | Some el \<Rightarrow>
                (Inr (Some (createReturnObject env
                       (CSF_constructor env (heap st @ [obj(''rootNode'' \<mapsto> Element el)]) a))),
                 st\<lparr>heap := heap st @ [obj(''rootNode'' \<mapsto> Element el)],
                    trace := trace st @ [NewCSF a]\<rparr>)))"
  by (simp add: initCSF_def spread_def read_def assign_def emit_def normalized_type_def
      get_prop_def hasOwnProperty_def Let_def split: option.splits)

text \<open>
  C1, as the spec states it, fails: the setup object \<open>setup_unresolved_no_clientKey\<close> has a
  rootNode that does not resolve to an element, and initCSF reports no root node error
  for it (the only line it logs is the warning about the clientKey).
\<close>

theorem initCSF_unresolved_rootNode_counterexample:
  "hasOwnProperty setup_unresolved_no_clientKey ''rootNode''
   \<and> findRootNode sample_env (get_prop setup_unresolved_no_clientKey ''rootNode'') = None
   \<and> \<not> list_ex is_rootnode_error
        (trace (snd (initCSF sample_env (Some 0) (sample_store [setup_unresolved_no_clientKey]))))"
  by (simp add: initCSF_Some sample_defs Let_def)

text \<open>
  C1 (amended): for every setup object that lacks a rootNode property, or whose rootNode
  does not resolve to an existing element, initCSF returns null and constructs no CSF.
  The line it logs is the root node error of the logger when the property is missing;
  when the property is there and does not resolve, it is the clientKey warning if the
  clientKey is falsy, and otherwise the root node error of the console (nothing where
  the console has no \<^verbatim>\<open>error\<close>).
\<close>

theorem initCSF_no_rootNode_returns_null:
  assumes "\<not> hasOwnProperty (heap st ! p) ''rootNode''
           \<or> findRootNode env (get_prop (heap st ! p) ''rootNode'') = None"
  shows "fst (initCSF env (Some p) st) = Inr None
         \<and> \<not> list_ex is_NewCSF (drop (length (trace st)) (trace (snd (initCSF env (Some p) st))))
         \<and> trace (snd (initCSF env (Some p) st)) = trace st @
             (if \<not> hasOwnProperty (heap st ! p) ''rootNode''
                then [LoggerError MSG_NO_ROOTNODE_PROP]
              else if falsy env (get_prop (heap st ! p) ''clientKey'')
                then [LoggerWarn MSG_NO_CLIENTKEY]
              else if console_error_available env
                then [ConsoleError MSG_ROOTNODE_NOT_FOUND (normalized_type env (heap st ! p))]
              else [])"
  using assms by (auto simp add: initCSF_Some Let_def)

theorem initCSF_no_rootNode_returns_null_witness:
  "\<not> hasOwnProperty setup_no_rootNode ''rootNode''
   \<and> fst (initCSF sample_env (Some 0) (sample_store [setup_no_rootNode])) = Inr None
   \<and> trace (snd (initCSF sample_env (Some 0) (sample_store [setup_no_rootNode])))
       = [LoggerError MSG_NO_ROOTNODE_PROP]"
  using initCSF_no_rootNode_returns_null [of "sample_store [setup_no_rootNode]" 0 sample_env]
  by (simp add: sample_store_def setup_no_rootNode_def hasOwnProperty_def)

text \<open>
  C2, as the spec states it, fails: the clientKey of the setup object \<open>setup_type_only\<close> is
  falsy, and initCSF logs no warning for it: the object has no rootNode property either,
  and the only line logged is the error about that.
\<close>

theorem initCSF_falsy_clientKey_counterexample:
  "falsy sample_env (get_prop setup_type_only ''clientKey'')
   \<and> trace (snd (initCSF sample_env (Some 0) (sample_store [setup_type_only])))
       = [LoggerError MSG_NO_ROOTNODE_PROP]"
  by (simp add: initCSF_Some sample_defs Let_def)

text \<open>
  C2 (amended): for every setup object whose clientKey is falsy, initCSF returns null
  without throwing and constructs no CSF; it logs the clientKey warning when the object
  has a rootNode property, and the error about the missing rootNode property when it has
  none.
\<close>

theorem initCSF_falsy_clientKey_returns_null:
  assumes "falsy env (get_prop (heap st ! p) ''clientKey'')"
  shows "fst (initCSF env (Some p) st) = Inr None
         \<and> \<not> list_ex is_NewCSF (drop (length (trace st)) (trace (snd (initCSF env (Some p) st))))
         \<and> trace (snd (initCSF env (Some p) st)) = trace st @
             [if hasOwnProperty (heap st ! p) ''rootNode''
              then LoggerWarn MSG_NO_CLIENTKEY else LoggerError MSG_NO_ROOTNODE_PROP]"
  using assms by (simp add: initCSF_Some Let_def)

theorem initCSF_falsy_clientKey_returns_null_witness:
  "falsy sample_env (get_prop setup_no_clientKey ''clientKey'')
   \<and> fst (initCSF sample_env (Some 0) (sample_store [setup_no_clientKey])) = Inr None
   \<and> trace (snd (initCSF sample_env (Some 0) (sample_store [setup_no_clientKey])))
       = [LoggerWarn MSG_NO_CLIENTKEY]"
  using initCSF_falsy_clientKey_returns_null [of sample_env "sample_store [setup_no_clientKey]" 0]
  by (simp add: sample_env_def sample_store_def setup_no_clientKey_def hasOwnProperty_def
      get_prop_def)

text \<open>
  C3, as the spec states it, fails: with no setup object (\<^verbatim>\<open>null\<close> or \<^verbatim>\<open>undefined\<close>)
  initCSF throws an Error to its caller.
\<close>

theorem initCSF_absent_setup_counterexample:
  "fst (initCSF sample_env None (sample_store [])) = Inl (Error MSG_NO_CONFIG)"
  by (simp add: initCSF_None)

text \<open>
  C3 (amended): for every setup object that is present, initCSF throws nothing of its
  own: it returns null or the return object of the CSF it constructed (the imported
  helpers and the class CSF are taken to return). With no setup object it throws the
  Error "No securedFields configuration object defined" and changes nothing.
\<close>

theorem initCSF_throws_only_without_setup:
  "initCSF env None st = (Inl (Error MSG_NO_CONFIG), st)
   \<and> (fst (initCSF env (Some p) st) = Inr None
      \<or> fst (initCSF env (Some p) st) =
          Inr (Some (createReturnObject env
            (CSF_constructor env (heap (snd (initCSF env (Some p) st))) (length (heap st))))))"
  by (simp add: initCSF_None initCSF_Some Let_def split: option.splits)

text \<open>
  C4, as the spec states it, fails: the rootNode of the setup object \<open>setup_nowhere\<close> is
  present and does not resolve, its clientKey is missing, and the signal that initCSF
  reports is the clientKey warning.
\<close>

theorem initCSF_check_order_counterexample:
  "hasOwnProperty setup_nowhere ''rootNode''
   \<and> findRootNode sample_env (get_prop setup_nowhere ''rootNode'') = None
   \<and> \<not> hasOwnProperty setup_nowhere ''clientKey''
   \<and> trace (snd (initCSF sample_env (Some 0) (sample_store [setup_nowhere])))
       = [LoggerWarn MSG_NO_CLIENTKEY]"
  by (simp add: initCSF_Some sample_defs Let_def)

text \<open>
  C4 (amended): initCSF checks, in this order, that the setup object has a rootNode
  property, that its clientKey is not falsy, and that the rootNode resolves to an
  element; the first check that fails decides the signal. Hence a setup object whose
  rootNode is present and does not resolve and whose clientKey is missing is reported
  with the clientKey warning, and one that lacks both the rootNode property and the
  clientKey with the error about the rootNode property.
\<close>

theorem initCSF_check_order:
  "trace (snd (initCSF env (Some p) st)) = trace st @
     (if \<not> hasOwnProperty (heap st ! p) ''rootNode'' then [LoggerError MSG_NO_ROOTNODE_PROP]
      else if falsy env (get_prop (heap st ! p) ''clientKey'') then [LoggerWarn MSG_NO_CLIENTKEY]
      else (case findRootNode env (get_prop (heap st ! p) ''rootNode'') of
              None \<Rightarrow> if console_error_available env
                      then [ConsoleError MSG_ROOTNODE_NOT_FOUND (normalized_type env (heap st ! p))]
                      else []
            | Some el \<Rightarrow> [NewCSF (length (heap st))]))"
  by (simp add: initCSF_Some Let_def split: option.splits)

theorem initCSF_check_order_witness:
  "trace (snd (initCSF sample_env (Some 0) (sample_store [setup_empty])))
     = [LoggerError MSG_NO_ROOTNODE_PROP]
   \<and> trace (snd (initCSF sample_env (Some 1) (sample_store [setup_empty, setup_no_clientKey])))
     = [LoggerWarn MSG_NO_CLIENTKEY]"
  using initCSF_check_order [of sample_env 0 "sample_store [setup_empty]"]
        initCSF_check_order [of sample_env 1 "sample_store [setup_empty, setup_no_clientKey]"]
  by (simp add: sample_defs)

text \<open>
  C5: for every setup object, the type that initCSF keeps on its copy of the object is
  \<^verbatim>\<open>card\<close> when isGenericCardType recognises the given type, and the given type unchanged
  when it does not; the copy has this type on every path, also where a later check
  fails. The type is normalized before anything else is resolved: where the rootNode is
  looked up and not found, the type that the console error names is the normalized one,
  and where the CSF is constructed, the store that its constructor is handed holds the
  normalized type on the copy already.
\<close>

theorem initCSF_normalizes_type:
  "read (snd (initCSF env (Some p) st)) (length (heap st)) ''type'' =
     (if isGenericCardType env (get_prop (heap st ! p) ''type'') then Str ''card''
      else get_prop (heap st ! p) ''type'')
   \<and> (hasOwnProperty (heap st ! p) ''rootNode''
        \<and> \<not> falsy env (get_prop (heap st ! p) ''clientKey'')
        \<and> findRootNode env (get_prop (heap st ! p) ''rootNode'') = None
        \<and> console_error_available env \<longrightarrow>
        trace (snd (initCSF env (Some p) st)) = trace st @
          [ConsoleError MSG_ROOTNODE_NOT_FOUND
             (if isGenericCardType env (get_prop (heap st ! p) ''type'') then Str ''card''
              else get_prop (heap st ! p) ''type'')])
   \<and> (hasOwnProperty (heap st ! p) ''rootNode''
        \<and> \<not> falsy env (get_prop (heap st ! p) ''clientKey'')
        \<and> findRootNode env (get_prop (heap st ! p) ''rootNode'') = Some el \<longrightarrow>
        fst (initCSF env (Some p) st) =
          Inr (Some (createReturnObject env
            (CSF_constructor env
               (heap st @
                  [(heap st ! p)
                     (''type'' \<mapsto>
                        (if isGenericCardType env (get_prop (heap st ! p) ''type'')
                         then Str ''card'' else get_prop (heap st ! p) ''type''),
                      ''rootNode'' \<mapsto> Element el)])
               (length (heap st))))))"
  by (simp add: initCSF_Some Let_def read_def get_prop_def normalized_type_def
      split: option.splits)

theorem initCSF_normalizes_type_witness:
  "read (snd (initCSF sample_env (Some 0) (sample_store [setup_complete]))) 1 ''type'' = Str ''card''
   \<and> read (snd (initCSF sample_env (Some 0) (sample_store [setup_ach]))) 1 ''type'' = Str ''ach''
   \<and> trace (snd (initCSF sample_env (Some 0) (sample_store [setup_unresolved])))
       = [ConsoleError MSG_ROOTNODE_NOT_FOUND (Str ''card'')]
   \<and> fst (initCSF probe_env (Some 0) (sample_store [setup_complete])) = Inr (Some (Str ''card''))"
  using initCSF_normalizes_type [of sample_env 0 "sample_store [setup_complete]" 7]
        initCSF_normalizes_type [of sample_env 0 "sample_store [setup_ach]" 7]
        initCSF_normalizes_type [of sample_env 0 "sample_store [setup_unresolved]" 7]
        initCSF_normalizes_type [of probe_env 0 "sample_store [setup_complete]" 7]
  by (simp add: sample_env_def probe_env_def sample_store_def setup_complete_def setup_ach_def
      setup_unresolved_def get_prop_def hasOwnProperty_def)




text \<open>
  C8: initCSF does not change the setup object of its caller, nor any other object that
  was in the store before the call: it writes the normalized type and the resolved
  rootNode to its own copy.
\<close>

theorem initCSF_preserves_caller_object:
  "take (length (heap st)) (heap (snd (initCSF env (Some p) st))) = heap st
   \<and> (p < length (heap st) \<longrightarrow> heap (snd (initCSF env (Some p) st)) ! p = heap st ! p)"
  by (simp add: initCSF_Some Let_def nth_append split: option.splits)

theorem initCSF_preserves_caller_object_witness:
  "(0::nat) < length (heap (sample_store [setup_complete]))
   \<and> read (snd (initCSF sample_env (Some 0) (sample_store [setup_complete]))) 0 ''type''
       = Str ''scheme''
   \<and> read (snd (initCSF sample_env (Some 0) (sample_store [setup_complete]))) 0 ''rootNode''
       = Str ''#card''
   \<and> read (snd (initCSF sample_env (Some 0) (sample_store [setup_complete]))) 1 ''type''
       = Str ''card''
   \<and> read (snd (initCSF sample_env (Some 0) (sample_store [setup_complete]))) 1 ''rootNode''
       = Element 7"
proof -
  let ?st = "snd (initCSF sample_env (Some 0) (sample_store [setup_complete]))"
  have valid: "(0::nat) < length (heap (sample_store [setup_complete]))"
    by (simp add: sample_store_def)
  have caller: "heap ?st ! 0 = setup_complete"
    using valid initCSF_preserves_caller_object [of "sample_store [setup_complete]" sample_env 0]
    by (simp add: sample_store_def)
  have caller_type: "read ?st 0 ''type'' = Str ''scheme''"
    by (simp add: read_def caller) (simp add: setup_complete_def get_prop_def)
  have caller_rootNode: "read ?st 0 ''rootNode'' = Str ''#card''"
    by (simp add: read_def caller) (simp add: setup_complete_def get_prop_def)
  have copy_type: "read ?st 1 ''type'' = Str ''card''"
    by (simp add: initCSF_Some sample_defs Let_def)
  have copy_rootNode: "read ?st 1 ''rootNode'' = Element 7"
    by (simp add: initCSF_Some sample_defs Let_def)
  show ?thesis
    using valid caller_type caller_rootNode copy_type copy_rootNode by blast
qed

section \<open>Properties of the Aggregator\<close>

lemma map_of_setFieldState:
  "map_of (setFieldState n s fs) m =
     (if m = n then (case map_of fs n of None \<Rightarrow> None | Some t \<Rightarrow> Some s) else map_of fs m)"
  by (induction fs) (auto simp: setFieldState_def)

lemma detectBrand_setFieldState:
  assumes "map_of fs n = Some s" and "brandHint s' = brandHint s"
  shows "detectBrand (setFieldState n s' fs) = detectBrand fs"
  using assms by (simp add: detectBrand_def map_of_setFieldState)

lemma setFieldState_twice: "setFieldState n s (setFieldState n t fs) = setFieldState n s fs"
  by (induction fs) (auto simp: setFieldState_def)

lemma setFieldState_mem:
  "map_of fs n = Some t \<Longrightarrow> (n, s) \<in> set (setFieldState n s fs)"
  by (induction fs) (auto simp: setFieldState_def split: if_splits)

lemma setFieldState_set:
  "(m, t) \<in> set (setFieldState n s fs) \<Longrightarrow> (m = n \<and> t = s) \<or> (m \<noteq> n \<and> (m, t) \<in> set fs)"
  by (induction fs) (auto simp: setFieldState_def split: if_splits)

lemma allValid_iff:
  "allValid (recompute opt fs) \<longleftrightarrow>
     (\<forall>(n, s) \<in> set fs. required opt (detectBrand fs) n \<longrightarrow> isValid s)"
  by (simp add: recompute_def list_all_iff)

lemma recompute_invalid:
  assumes "map_of fs n = Some s" and "required opt (detectBrand fs) n"
  shows "\<not> allValid (recompute opt (setFieldState n (s\<lparr>isValid := False\<rparr>) fs))"
proof -
  let ?bad = "s\<lparr>isValid := False\<rparr>"
  have "detectBrand (setFieldState n ?bad fs) = detectBrand fs"
    using assms(1) by (simp add: detectBrand_setFieldState)
  moreover have "(n, ?bad) \<in> set (setFieldState n ?bad fs)"
    using assms(1) by (rule setFieldState_mem)
  ultimately show ?thesis
    using assms(2) unfolding allValid_iff by force
qed

lemma recompute_restored:
  assumes "map_of fs n = Some s" and "allValid (recompute opt fs)"
  shows "allValid (recompute opt (setFieldState n (s\<lparr>isValid := True\<rparr>) fs))"
proof -
  let ?good = "s\<lparr>isValid := True\<rparr>"
  have "detectBrand (setFieldState n ?good fs) = detectBrand fs"
    using assms(1) by (simp add: detectBrand_setFieldState)
  moreover have "\<forall>(m, t) \<in> set (setFieldState n ?good fs).
                   required opt (detectBrand fs) m \<longrightarrow> isValid t"
    using assms(2) by (auto simp: allValid_iff dest!: setFieldState_set)
  ultimately show ?thesis
    by (simp add: allValid_iff)
qed

lemma fieldStateChanged_twice:
  "fieldStateChanged opt n s (fieldStateChanged opt n t agg) = fieldStateChanged opt n s agg"
  by (simp add: fieldStateChanged_def Let_def setFieldState_twice)

lemma composite_fieldStateChanged:
  "composite (fieldStateChanged opt n s agg) = recompute opt (setFieldState n s (fieldStates agg))"
  by (simp add: fieldStateChanged_def Let_def)

lemma fieldStates_fieldStateChanged:
  "fieldStates (fieldStateChanged opt n s agg) = setFieldState n s (fieldStates agg)"
  by (simp add: fieldStateChanged_def Let_def)

lemmas agg_defs = sample_field_def sample_optional_def sample_fields_def sample_aggregator_def
  recompute_def detectBrand_def required_def fieldStateChanged_def setFieldState_def

text \<open>
  C7: for every set of FieldStates, allValid is true iff isValid is true of every field
  that is required under the detected brand. For a required field \<open>n\<close> with state \<open>s\<close>:
  once \<open>n\<close> is reported invalid allValid is false, and if allValid held of the FieldStates
  before, it is true again once \<open>n\<close> is reported valid. The CompositeState kept after a
  notification is the recomputation over the FieldStates kept with it, whatever was
  stored before, and the same notification a second time changes nothing.
\<close>

theorem allValid_iff_required_valid:
  "(allValid (recompute opt fs) \<longleftrightarrow>
      (\<forall>(m, t) \<in> set fs. required opt (detectBrand fs) m \<longrightarrow> isValid t))
   \<and> (map_of (fieldStates agg) n = Some s \<and> required opt (detectBrand (fieldStates agg)) n \<longrightarrow>
        \<not> allValid (composite (fieldStateChanged opt n (s\<lparr>isValid := False\<rparr>) agg))
        \<and> (allValid (recompute opt (fieldStates agg)) \<longrightarrow>
             allValid (composite (fieldStateChanged opt n (s\<lparr>isValid := True\<rparr>)
                        (fieldStateChanged opt n (s\<lparr>isValid := False\<rparr>) agg)))))
   \<and> fieldStateChanged opt m u (fieldStateChanged opt m u agg) = fieldStateChanged opt m u agg
   \<and> composite (fieldStateChanged opt m u agg) =
       recompute opt (fieldStates (fieldStateChanged opt m u agg))"
  by (simp add: allValid_iff [of opt fs] fieldStateChanged_twice composite_fieldStateChanged
      fieldStates_fieldStateChanged recompute_invalid recompute_restored)

theorem allValid_iff_required_valid_witness:
  "map_of (fieldStates sample_aggregator) ''encryptedExpiryDate'' = Some (sample_field True None)
   \<and> required sample_optional (detectBrand (fieldStates sample_aggregator)) ''encryptedExpiryDate''
   \<and> allValid (recompute sample_optional sample_fields)
   \<and> \<not> allValid (composite (fieldStateChanged sample_optional ''encryptedExpiryDate''
          (sample_field False None) sample_aggregator))
   \<and> allValid (composite (fieldStateChanged sample_optional ''encryptedExpiryDate''
          (sample_field True None)
          (fieldStateChanged sample_optional ''encryptedExpiryDate'' (sample_field False None)
             sample_aggregator)))"
  using allValid_iff_required_valid [of sample_optional sample_fields sample_aggregator
          "''encryptedExpiryDate''" "sample_field True None" "[]" "sample_field True None"]
  by (simp add: agg_defs)

section \<open>Properties of Session and Core\<close>

lemma updateSessionData_this:
  "fst (updateSessionData sv latestData (this, storage)) =
     this\<lparr>session := (session this)\<lparr>data := Some latestData\<rparr>\<rparr>"
  by (simp add: updateSessionData_def storeSession_def)

lemma on_response_id: "id' (session (fst (on_response sv response w))) = id' (session (fst w))"
  by (cases w) (simp add: on_response_def updateSessionData_this split: option.splits)

text \<open>
  C9: for every Session and every string latestData, updateSessionData leaves the Session
  as it was but for the data of its session, which is latestData afterwards; the id that
  the getter gives is the same after updateSessionData, after makePayment and after
  submitDetails.
\<close>

theorem updateSessionData_preserves_id:
  "fst (updateSessionData sv latestData (this, storage)) =
     this\<lparr>session := (session this)\<lparr>data := Some latestData\<rparr>\<rparr>
   \<and> Session_data (fst (updateSessionData sv latestData (this, storage))) = Some latestData
   \<and> Session_id (fst (updateSessionData sv latestData (this, storage))) = Session_id this
   \<and> Session_id (fst (snd (makePayment sv d (this, storage)))) = Session_id this
   \<and> Session_id (fst (snd (submitDetails sv d (this, storage)))) = Session_id this"
  by (simp add: updateSessionData_this Session_id_def Session_data_def makePayment_def
      submitDetails_def on_response_id split: settled.splits)

text \<open>
  C10: for every Core and every component, after \<^verbatim>\<open>remove\<close> of the component the list of
  components has no entry with the \<^verbatim>\<open>_id\<close> of the component, it is the old list without
  those entries (the others are all kept, in their order), and \<^verbatim>\<open>unmount\<close> has been
  called once, on the component.
\<close>

theorem remove_filters_components:
  "(\<forall>x \<in> set (components (fst (remove c (this, unmounted)))). x_id x \<noteq> x_id c)
   \<and> components (fst (remove c (this, unmounted))) =
       filter (\<lambda>x. x_id x \<noteq> x_id c) (components this)
   \<and> snd (remove c (this, unmounted)) = unmounted @ [c]"
  by (simp add: remove_def)

theorem remove_filters_components_witness:
  "components (fst (remove \<lparr>x_id = Str ''card-2''\<rparr> (\<lparr>components = sample_components\<rparr>, [])))
     = [\<lparr>x_id = Str ''card-1''\<rparr>, \<lparr>x_id = Str ''ideal-3''\<rparr>]
   \<and> snd (remove \<lparr>x_id = Str ''card-2''\<rparr> (\<lparr>components = sample_components\<rparr>, []))
     = [\<lparr>x_id = Str ''card-2''\<rparr>]"
  using remove_filters_components [of "\<lparr>x_id = Str ''card-2''\<rparr>"
          "\<lparr>components = sample_components\<rparr>" "[]"]
  by (simp add: sample_components_def)

end
